theory Spec2Isabelle
  imports Main "HOL-Library.List_Lexorder" "HOL-Library.Multiset"
begin

section \<open>Python values, errors and arrays\<close>

text \<open>
  Exceptions are values: every function of the model that can raise returns
  \<open>error + 'a\<close>, with \<open>Inl\<close> the exception. The first group of constructors are the
  Python exceptions the source (or numpy, or Spark) raises; the second group are the
  error classes the specification names.
\<close>

datatype error =
    TypeError | ValueError | IndexError | NameError | PyException
  | TypeSpecError | GeometryError | InvalidShapeError | NotBoundError | IncompleteBlockError

definition bindE :: "error + 'a \<Rightarrow> ('a \<Rightarrow> error + 'b) \<Rightarrow> error + 'b" where
  "bindE m f = (case m of Inl e \<Rightarrow> Inl e | Inr x \<Rightarrow> f x)"

fun mapE :: "('a \<Rightarrow> error + 'b) \<Rightarrow> 'a list \<Rightarrow> error + 'b list" where
  "mapE f [] = Inr []"
| "mapE f (x # xs) =
     (case f x of
        Inl e \<Rightarrow> Inl e
      | Inr y \<Rightarrow> (case mapE f xs of Inl e \<Rightarrow> Inl e | Inr ys \<Rightarrow> Inr (y # ys)))"

text \<open>
  A numpy array is a nested list of integers with a dtype name and the writeable flag.
  \<open>shape\<close> is numpy's \<open>.shape\<close> for a rectangular array.
\<close>

datatype nd = Scalar int | Arr "nd list"

record ndarray =
  a_dtype :: string
  writeable :: bool
  body :: nd

fun shape :: "nd \<Rightarrow> nat list" where
  "shape (Scalar v) = []"
| "shape (Arr []) = [0]"
| "shape (Arr (x # xs)) = Suc (length xs) # shape x"

section \<open>Spark collections\<close>

text \<open>
  An RDD is modelled by what materialising it yields: the list of its records, or the
  exception of the first per-record function that fails. Transformations (\<open>mapValues\<close>,
  \<open>flatMap\<close>, \<open>groupBy\<close>, \<open>sortBy\<close>, \<open>map\<close>) are lazy in Spark: they build the new
  collection and run nothing, so in the model they return a value and never an error of
  their own. Actions (\<open>count\<close>, \<open>first\<close>) run the collection. The array of a record is
  a value: Spark hands a per-record function the record as the task has deserialised
  it, so the function shares no array with the collection it is applied to.
\<close>

type_synonym key = int
type_synonym 'v rdd = "error + (key \<times> 'v) list"

definition rdd_count :: "error + 'a list \<Rightarrow> error + int" where
  "rdd_count r = (case r of Inl e \<Rightarrow> Inl e | Inr xs \<Rightarrow> Inr (int (length xs)))"

definition rdd_first :: "error + 'a list \<Rightarrow> error + 'a" where
  "rdd_first r =
     (case r of
        Inl e \<Rightarrow> Inl e
      | Inr [] \<Rightarrow> Inl ValueError
      | Inr (x # xs) \<Rightarrow> Inr x)"

definition mapValues :: "('v \<Rightarrow> error + 'w) \<Rightarrow> 'v rdd \<Rightarrow> 'w rdd" where
  "mapValues f r =
     bindE r (mapE (\<lambda>(k, v). case f v of Inl e \<Rightarrow> Inl e | Inr w \<Rightarrow> Inr (k, w)))"

section \<open>The Images collection\<close>

text \<open>
  The object's attributes \<open>rdd\<close>, \<open>_dims\<close>, \<open>_nimages\<close> and \<open>_dtype\<close>; a leading
  underscore is written \<open>u_\<close>. \<open>None\<close> is the empty cache. The field \<open>jobs\<close> is a
  ghost log of the Spark actions run on behalf of this object, in order: it is how the
  model tells a cached read from a recount.
\<close>

datatype job = Count | First

record images =
  rdd :: "ndarray rdd"
  u_dims :: "int list option"
  u_nimages :: "int option"
  u_dtype :: "string option"
  jobs :: "job list"

text \<open>
  Modelled from the spec: \<open>Dimensions.fromTuple\<close> (thunder.rdds.keys) is not among the
  sources. The specification's BoundingBox is constructed from a size tuple and fails
  with \<open>InvalidShapeError\<close> if any axis size is non-positive or if the rank is zero. A
  Dimensions object is represented by its tuple of axis sizes.
\<close>

definition fromTuple :: "int list \<Rightarrow> error + int list" where
  "fromTuple tup =
     (if tup = [] \<or> list_ex (\<lambda>v. v \<le> 0) tup then Inl InvalidShapeError else Inr tup)"

text \<open>
  The \<open>dims\<close> argument of the constructor: \<open>None\<close>, an existing Dimensions object, or any
  other sequence of integers (a tuple or a list).
\<close>

datatype dims_arg = DimsNone | DimsObject "int list" | DimsSeq "int list"

text \<open>
  \<open>Images.__init__\<close>. \<open>if dims and not isinstance(dims, Dimensions)\<close>: \<open>None\<close> and the
  empty sequence are falsy and stored as they are; a Dimensions object is stored as it
  is; any other sequence goes through \<open>Dimensions.fromTuple\<close>, whose every exception
  becomes a \<open>TypeError\<close>.
\<close>

definition Images :: "ndarray rdd \<Rightarrow> dims_arg \<Rightarrow> int option \<Rightarrow> string option \<Rightarrow> error + images" where
  "Images r dims nimages dtype =
     (case dims of
        DimsNone \<Rightarrow>
          Inr \<lparr>rdd = r, u_dims = None, u_nimages = nimages, u_dtype = dtype, jobs = []\<rparr>
      | DimsObject d \<Rightarrow>
          Inr \<lparr>rdd = r, u_dims = Some d, u_nimages = nimages, u_dtype = dtype, jobs = []\<rparr>
      | DimsSeq d \<Rightarrow>
          (if d = [] then
             Inr \<lparr>rdd = r, u_dims = Some [], u_nimages = nimages, u_dtype = dtype, jobs = []\<rparr>
           else
             (case fromTuple d of
                Inl e \<Rightarrow> Inl TypeError
              | Inr d' \<Rightarrow>
                  Inr \<lparr>rdd = r, u_dims = Some d', u_nimages = nimages, u_dtype = dtype,
                       jobs = []\<rparr>)))"

text \<open>
  Modelled from the spec: \<open>Data.populateParamsFromFirstRecord\<close> (thunder.rdds.data) is
  not among the sources. Shape and dtype are lazily derived from an arbitrary record
  the first time needed and cached: the superclass method takes the first record,
  caches its dtype and returns the record.
\<close>

definition Data_populateParamsFromFirstRecord ::
    "images \<Rightarrow> error + ((key \<times> ndarray) \<times> images)" where
  "Data_populateParamsFromFirstRecord self =
     (case rdd_first (rdd self) of
        Inl e \<Rightarrow> Inl e
      | Inr rec \<Rightarrow>
          Inr (rec, self\<lparr>u_dtype := Some (a_dtype (snd rec)), jobs := jobs self @ [First]\<rparr>))"

definition populateParamsFromFirstRecord ::
    "images \<Rightarrow> error + ((key \<times> ndarray) \<times> images)" where
  "populateParamsFromFirstRecord self =
     (case Data_populateParamsFromFirstRecord self of
        Inl e \<Rightarrow> Inl e
      | Inr (rec, self1) \<Rightarrow>
          (case fromTuple (map int (shape (body (snd rec)))) of
             Inl e \<Rightarrow> Inl e
           | Inr d \<Rightarrow> Inr (rec, self1\<lparr>u_dims := Some d\<rparr>)))"

text \<open>The properties. Each returns its value and the object with its caches updated.\<close>

definition dims :: "images \<Rightarrow> error + (int list \<times> images)" where
  "dims self =
     (case u_dims self of
        Some d \<Rightarrow> Inr (d, self)
      | None \<Rightarrow>
          (case populateParamsFromFirstRecord self of
             Inl e \<Rightarrow> Inl e
           | Inr (rec, self1) \<Rightarrow>
               (case u_dims self1 of Some d \<Rightarrow> Inr (d, self1) | None \<Rightarrow> Inl PyException)))"

definition nimages :: "images \<Rightarrow> error + (int \<times> images)" where
  "nimages self =
     (case u_nimages self of
        Some n \<Rightarrow> Inr (n, self)
      | None \<Rightarrow>
          (case rdd_count (rdd self) of
             Inl e \<Rightarrow> Inl e
           | Inr n \<Rightarrow> Inr (n, self\<lparr>u_nimages := Some n, jobs := jobs self @ [Count]\<rparr>)))"

definition resetCounts :: "images \<Rightarrow> images" where
  "resetCounts self = self\<lparr>u_nimages := None\<rparr>"

text \<open>
  Modelled from the spec: the \<open>dtype\<close> property of the superclass \<open>Data\<close> is not among
  the sources. The dtype is lazily derived from an arbitrary record the first time it is
  needed and cached; the derivation is the (overridden) \<open>populateParamsFromFirstRecord\<close>.
\<close>

definition dtype :: "images \<Rightarrow> error + (string \<times> images)" where
  "dtype self =
     (case u_dtype self of
        Some t \<Rightarrow> Inr (t, self)
      | None \<Rightarrow>
          (case populateParamsFromFirstRecord self of
             Inl e \<Rightarrow> Inl e
           | Inr (rec, self1) \<Rightarrow>
               (case u_dtype self1 of Some t \<Rightarrow> Inr (t, self1) | None \<Rightarrow> Inl PyException)))"

section \<open>Blocking strategies and the Blocks collection\<close>

text \<open>
  The arguments \<open>blockSizeSpec\<close> and \<open>padding\<close> are arbitrary Python values. Python 2 has
  two integer types: \<open>PyInt\<close> is an \<open>int\<close>, \<open>PyLong\<close> a \<open>long\<close>, the type of an integer
  beyond \<open>sys.maxint\<close>, which is no instance of \<open>int\<close>. \<open>truthy\<close> is Python's truth value,
  as \<open>not padding\<close> tests it.
\<close>

datatype pyobj = PyNone | PyInt int | PyLong int | PyStr string | PyTuple "pyobj list"

fun truthy :: "pyobj \<Rightarrow> bool" where
  "truthy PyNone = False"
| "truthy (PyInt n) = (n \<noteq> 0)"
| "truthy (PyLong n) = (n \<noteq> 0)"
| "truthy (PyStr s) = (s \<noteq> [])"
| "truthy (PyTuple xs) = (xs \<noteq> [])"

datatype stratClass = SimpleBlockingStrategy | PaddedBlockingStrategy

text \<open>
  \<open>blockSizeSpec\<close> is either an instance of \<open>BlockingStrategy\<close> (of the opaque type \<open>'s\<close>)
  or some other Python value.
\<close>

datatype 's blockSizeSpec = SpecStrategy 's | SpecValue pyobj

text \<open>
  Modelled from the spec: the key of a fragment (thunder.rdds.imgblocks) is not among
  the sources. The specification's PartitioningKey pairs the SpatialKey, a tuple of
  per-axis block indices, with the originating image's key.
\<close>

record blockingKey =
  origKey :: key
  spatialKey :: "int list"

text \<open>
  Modelled from the spec: the Blocks class is not among the sources. A Blocks
  collection is a collection of Block records plus \<open>dims\<close>, \<open>nimages\<close> and \<open>dtype\<close>; its
  constructor stores the values it is given. \<open>b_class\<close> is the name of the class that
  \<open>getBlocksClass\<close> returned.
\<close>

record 'b blocks =
  b_class :: string
  b_rdd :: "error + 'b list"
  b_dims :: "int list"
  b_nimages :: int
  b_dtype :: string

text \<open>
  The metadata a strategy reads from the Images collection it is given: the values of
  the properties \<open>dims\<close>, \<open>nimages\<close> and \<open>dtype\<close>.
\<close>

type_synonym meta = "int list \<times> int \<times> string"

text \<open>
  The module thunder.rdds.imgblocks.strategy and the method \<open>Blocks.toSeries\<close> are not
  among the sources: the functions \<open>toBlocks\<close> calls are parameters, collected in one
  record. \<open>'s\<close> is the type of strategy objects, \<open>'b\<close> of Block records, \<open>'r\<close> of Series
  collections. \<open>generateFromBlockSize\<close> and \<open>newStrategy\<close> take the class they are called
  on; \<open>newStrategy c spec padding\<close> is the constructor call \<open>c(spec, padding=padding)\<close>.

  Modelled from the spec: what \<open>setImages\<close> (the specification's \<open>bind\<close>) and
  \<open>generateFromBlockSize\<close> do with the Images object: they record \<open>dims\<close>, \<open>dtype\<close> and
  \<open>nimages\<close> from the collection, so they receive the values of these three properties.
\<close>

record ('s, 'b, 'r) collaborators =
  generateFromBlockSize :: "stratClass \<Rightarrow> meta \<Rightarrow> pyobj \<Rightarrow> pyobj \<Rightarrow> error + 's"
  newStrategy :: "stratClass \<Rightarrow> pyobj \<Rightarrow> pyobj \<Rightarrow> error + 's"
  setImages :: "'s \<Rightarrow> meta \<Rightarrow> error + 's"
  calcAverageBlockSize :: "'s \<Rightarrow> error + int"
  DEFAULT_MAX_BLOCK_SIZE :: int
  getBlocksClass :: "'s \<Rightarrow> string"
  blockingFunction :: "'s \<Rightarrow> key \<times> ndarray \<Rightarrow> error + (blockingKey \<times> ndarray) list"
  combiningFunction :: "'s \<Rightarrow> int list \<times> (blockingKey \<times> ndarray) list \<Rightarrow> error + 'b"
  Blocks_toSeries :: "'b blocks \<Rightarrow> error + 'r"

text \<open>
  Modelled from the spec: the constructors of the strategy classes
  (thunder.rdds.imgblocks.strategy) are not among the sources. The specification lists
  what a \<open>blockSizeSpec\<close> may be: a target byte budget (a string or an integer), an
  explicit per-axis split-count tuple, or a pre-built strategy; an unrecognized
  \<open>blockSizeSpec\<close> shape or type is a \<open>TypeSpecError\<close>, surfaced immediately. The
  constructor is called with the split-count tuple, so it raises \<open>TypeSpecError\<close> on a
  value that is no tuple of integers. What it does with a tuple of integers (the check
  of the counts, the strategy it stores) is the parameter \<open>build\<close>.
\<close>

fun intOf :: "pyobj \<Rightarrow> int option" where
  "intOf (PyInt n) = Some n"
| "intOf (PyLong n) = Some n"
| "intOf v = None"

fun splitCounts :: "pyobj \<Rightarrow> int list option" where
  "splitCounts (PyTuple xs) = those (map intOf xs)"
| "splitCounts v = None"

definition strategyInit ::
    "(stratClass \<Rightarrow> int list \<Rightarrow> pyobj \<Rightarrow> error + 's) \<Rightarrow> stratClass \<Rightarrow> pyobj \<Rightarrow> pyobj \<Rightarrow> error + 's" where
  "strategyInit build c v padding =
     (case splitCounts v of
        None \<Rightarrow> Inl TypeSpecError
      | Some counts \<Rightarrow> build c counts padding)"

text \<open>Reading the three properties, in the order \<open>dims\<close>, \<open>nimages\<close>, \<open>dtype\<close>.\<close>

definition probe :: "images \<Rightarrow> error + (meta \<times> images)" where
  "probe self =
     bindE (dims self) (\<lambda>(d, self1).
     bindE (nimages self1) (\<lambda>(n, self2).
     bindE (dtype self2) (\<lambda>(t, self3).
     Inr ((d, n, t), self3))))"

text \<open>
  Spark's lazy transformations on the model of a collection. \<open>groupBy\<close> yields one pair
  per distinct key, holding all elements with that key; Spark fixes no order among the
  pairs, the model lists them by last occurrence of the key. \<open>sortBy\<close> sorts ascending by
  the key function; a Python tuple of integers is compared as the list of its entries
  in the lexicographic order.
\<close>

definition flatMap :: "('a \<Rightarrow> error + 'c list) \<Rightarrow> error + 'a list \<Rightarrow> error + 'c list" where
  "flatMap f r = bindE r (\<lambda>xs. bindE (mapE f xs) (\<lambda>ys. Inr (concat ys)))"

definition groupBy :: "('a \<Rightarrow> 'k) \<Rightarrow> 'a list \<Rightarrow> ('k \<times> 'a list) list" where
  "groupBy f xs = map (\<lambda>k. (k, filter (\<lambda>x. f x = k) xs)) (remdups (map f xs))"

definition sortBy :: "('a \<Rightarrow> int list) \<Rightarrow> 'a list \<Rightarrow> 'a list" where
  "sortBy f xs = sort_key f xs"

text \<open>
  \<open>Images.toBlocks\<close>, in the steps of the source. The choice of the strategy:
  \<open>stratClass\<close> is the unpadded class when \<open>not padding\<close>; a strategy instance is used
  as it is, a string or an integer goes to \<open>generateFromBlockSize\<close>, and anything else
  is assumed to be a tuple of splits and handed to the constructor of \<open>stratClass\<close>.
  \<open>isStringOrInt\<close> is the test \<open>isinstance(blockSizeSpec, basestring) or
  isinstance(blockSizeSpec, int)\<close>, which a \<open>long\<close> fails.
\<close>

definition stratClassFor :: "pyobj \<Rightarrow> stratClass" where
  "stratClassFor padding =
     (if \<not> truthy padding then SimpleBlockingStrategy else PaddedBlockingStrategy)"

fun isStringOrInt :: "pyobj \<Rightarrow> bool" where
  "isStringOrInt (PyStr s) = True"
| "isStringOrInt (PyInt n) = True"
| "isStringOrInt v = False"

definition selectStrategy ::
    "('s, 'b, 'r) collaborators \<Rightarrow> images \<Rightarrow> 's blockSizeSpec \<Rightarrow> pyobj \<Rightarrow> error + ('s \<times> images)" where
  "selectStrategy M self blockSizeSpec padding =
     (case blockSizeSpec of
        SpecStrategy s \<Rightarrow> Inr (s, self)
      | SpecValue v \<Rightarrow>
          (if isStringOrInt v then
             bindE (probe self) (\<lambda>(m, self1).
             bindE (generateFromBlockSize M (stratClassFor padding) m v padding) (\<lambda>s.
             Inr (s, self1)))
           else
             bindE (newStrategy M (stratClassFor padding) v padding) (\<lambda>s. Inr (s, self))))"

text \<open>The strategy after \<open>blockingStrategy.setImages(self)\<close>.\<close>

definition boundStrategy ::
    "('s, 'b, 'r) collaborators \<Rightarrow> images \<Rightarrow> 's blockSizeSpec \<Rightarrow> pyobj \<Rightarrow> error + ('s \<times> images)" where
  "boundStrategy M self blockSizeSpec padding =
     bindE (selectStrategy M self blockSizeSpec padding) (\<lambda>(s, self1).
     bindE (probe self1) (\<lambda>(m, self2).
     bindE (setImages M s m) (\<lambda>bound.
     Inr (bound, self2))))"

text \<open>The line printed when the average block size reaches the suggested maximum.\<close>

datatype printed = BlockSizeWarning int int

text \<open>
  \<open>vals\<close> and \<open>groupedvals\<close>: the fragments of all records, grouped by spatial key, the
  groups sorted by the reversed spatial key.
\<close>

definition groupedvals ::
    "('s, 'b, 'r) collaborators \<Rightarrow> 's \<Rightarrow> ndarray rdd \<Rightarrow>
       error + (int list \<times> (blockingKey \<times> ndarray) list) list" where
  "groupedvals M bound r =
     bindE (flatMap (blockingFunction M bound) r) (\<lambda>vals.
     Inr (sortBy (\<lambda>(k, _). rev k) (groupBy (\<lambda>(k, _). spatialKey k) vals)))"

definition toBlocks ::
    "('s, 'b, 'r) collaborators \<Rightarrow> images \<Rightarrow> 's blockSizeSpec \<Rightarrow> pyobj \<Rightarrow>
       error + ('b blocks \<times> images \<times> printed list)" where
  "toBlocks M self blockSizeSpec padding =
     bindE (boundStrategy M self blockSizeSpec padding) (\<lambda>(bound, self1).
     bindE (calcAverageBlockSize M bound) (\<lambda>avgSize.
     let out = (if avgSize \<ge> DEFAULT_MAX_BLOCK_SIZE M
                then [BlockSizeWarning avgSize (DEFAULT_MAX_BLOCK_SIZE M)] else []);
         returntype = getBlocksClass M bound;
         blockedvals = bindE (groupedvals M bound (rdd self1)) (mapE (combiningFunction M bound))
     in
     bindE (probe self1) (\<lambda>((d, n, t), self2).
     Inr (\<lparr>b_class = returntype, b_rdd = blockedvals, b_dims = d, b_nimages = n, b_dtype = t\<rparr>,
          self2, out))))"

text \<open>\<open>Images.toSeries\<close>: \<open>self.toBlocks(blockSizeSpec).toSeries()\<close>, the padding left at its default 0.\<close>

definition toSeries ::
    "('s, 'b, 'r) collaborators \<Rightarrow> images \<Rightarrow> 's blockSizeSpec \<Rightarrow> error + ('r \<times> images \<times> printed list)" where
  "toSeries M self blockSizeSpec =
     bindE (toBlocks M self blockSizeSpec (PyInt 0)) (\<lambda>(blk, self1, out).
     bindE (Blocks_toSeries M blk) (\<lambda>ser.
     Inr (ser, self1, out)))"

section \<open>numpy operations\<close>

text \<open>
  The numpy functions the source calls, on nested lists. An axis outside
  \<open>[-ndim, ndim)\<close> is numpy's AxisError, a reduction over an axis of length zero a
  ValueError; both are written \<open>ValueError\<close> (AxisError is a subclass of it).
\<close>

definition ndim :: "nd \<Rightarrow> nat" where
  "ndim a = length (shape a)"

fun zipnd :: "(int \<Rightarrow> int \<Rightarrow> int) \<Rightarrow> nd \<Rightarrow> nd \<Rightarrow> error + nd"
  and zipnds :: "(int \<Rightarrow> int \<Rightarrow> int) \<Rightarrow> nd list \<Rightarrow> nd list \<Rightarrow> error + nd list" where
  "zipnd f (Scalar a) (Scalar b) = Inr (Scalar (f a b))"
| "zipnd f (Arr xs) (Arr ys) =
     (case zipnds f xs ys of Inl e \<Rightarrow> Inl e | Inr zs \<Rightarrow> Inr (Arr zs))"
| "zipnd f (Scalar a) (Arr ys) = Inl ValueError"
| "zipnd f (Arr xs) (Scalar b) = Inl ValueError"
| "zipnds f [] [] = Inr []"
| "zipnds f (x # xs) (y # ys) =
     (case zipnd f x y of
        Inl e \<Rightarrow> Inl e
      | Inr z \<Rightarrow> (case zipnds f xs ys of Inl e \<Rightarrow> Inl e | Inr zs \<Rightarrow> Inr (z # zs)))"
| "zipnds f [] (y # ys) = Inl ValueError"
| "zipnds f (x # xs) [] = Inl ValueError"

fun foldE :: "('a \<Rightarrow> 'b \<Rightarrow> error + 'a) \<Rightarrow> 'a \<Rightarrow> 'b list \<Rightarrow> error + 'a" where
  "foldE f a [] = Inr a"
| "foldE f a (x # xs) = (case f a x of Inl e \<Rightarrow> Inl e | Inr a' \<Rightarrow> foldE f a' xs)"

text \<open>Reduction of the axis \<open>k\<close> (counted from 0) with a binary operation.\<close>

fun reduceAxis :: "(int \<Rightarrow> int \<Rightarrow> int) \<Rightarrow> nat \<Rightarrow> nd \<Rightarrow> error + nd"
  and reduceAxes :: "(int \<Rightarrow> int \<Rightarrow> int) \<Rightarrow> nat \<Rightarrow> nd list \<Rightarrow> error + nd list" where
  "reduceAxis f k (Scalar v) = Inl ValueError"
| "reduceAxis f 0 (Arr []) = Inl ValueError"
| "reduceAxis f 0 (Arr (x # xs)) = foldE (zipnd f) x xs"
| "reduceAxis f (Suc k) (Arr xs) =
     (case reduceAxes f k xs of Inl e \<Rightarrow> Inl e | Inr ys \<Rightarrow> Inr (Arr ys))"
| "reduceAxes f k [] = Inr []"
| "reduceAxes f k (x # xs) =
     (case reduceAxis f k x of
        Inl e \<Rightarrow> Inl e
      | Inr y \<Rightarrow> (case reduceAxes f k xs of Inl e \<Rightarrow> Inl e | Inr ys \<Rightarrow> Inr (y # ys)))"

definition normAxis :: "int \<Rightarrow> nat \<Rightarrow> error + nat" where
  "normAxis axis n =
     (if axis < - int n \<or> int n \<le> axis then Inl ValueError
      else Inr (nat (if axis < 0 then axis + int n else axis)))"

definition amax :: "ndarray \<Rightarrow> int \<Rightarrow> error + ndarray" where
  "amax x axis =
     bindE (normAxis axis (ndim (body x))) (\<lambda>k.
     bindE (reduceAxis max k (body x)) (\<lambda>b.
     Inr \<lparr>a_dtype = a_dtype x, writeable = True, body = b\<rparr>))"

definition amin :: "ndarray \<Rightarrow> int \<Rightarrow> error + ndarray" where
  "amin x axis =
     bindE (normAxis axis (ndim (body x))) (\<lambda>k.
     bindE (reduceAxis min k (body x)) (\<lambda>b.
     Inr \<lparr>a_dtype = a_dtype x, writeable = True, body = b\<rparr>))"

text \<open>
  \<open>x + y\<close> for two arrays of one dtype (the source adds the maximum and the minimum of
  the same array): numpy adds in that dtype, and an integer dtype wraps around. The
  values of the model are integers; a dtype that is none of numpy's integer types is
  left unwrapped.
\<close>

definition wrapSigned :: "nat \<Rightarrow> int \<Rightarrow> int" where
  "wrapSigned w v = (v + 2 ^ (w - 1)) mod 2 ^ w - 2 ^ (w - 1)"

definition wrapTo :: "string \<Rightarrow> int \<Rightarrow> int" where
  "wrapTo t v =
     (if t = ''int8'' then wrapSigned 8 v
      else if t = ''int16'' then wrapSigned 16 v
      else if t = ''int32'' then wrapSigned 32 v
      else if t = ''int64'' then wrapSigned 64 v
      else if t = ''uint8'' then v mod 2 ^ 8
      else if t = ''uint16'' then v mod 2 ^ 16
      else if t = ''uint32'' then v mod 2 ^ 32
      else if t = ''uint64'' then v mod 2 ^ 64
      else v)"

definition add :: "ndarray \<Rightarrow> ndarray \<Rightarrow> error + ndarray" where
  "add x y =
     bindE (zipnd (\<lambda>a b. wrapTo (a_dtype x) (a + b)) (body x) (body y)) (\<lambda>b.
     Inr \<lparr>a_dtype = a_dtype x, writeable = True, body = b\<rparr>)"

text \<open>
  \<open>v[slices]\<close> for a list of slices \<open>slice(0, stop, step)\<close> with a positive step, one per
  leading axis: on an axis of length \<open>n\<close> the slice selects the indices \<open>0, step,
  2 * step, ...\<close> below the stop, which is clipped to \<open>n\<close> (a negative stop counts from
  the end). More slices than axes is an IndexError.
\<close>

definition sliceIndices :: "int \<Rightarrow> int \<Rightarrow> nat \<Rightarrow> nat list" where
  "sliceIndices stop step n =
     (let hi = (if stop < 0 then max 0 (int n + stop) else min stop (int n))
      in map (\<lambda>k. k * nat step) [0 ..< nat ((hi + step - 1) div step)])"

fun getitem :: "nd \<Rightarrow> (int \<times> int) list \<Rightarrow> error + nd"
  and getitems :: "nd list \<Rightarrow> (int \<times> int) list \<Rightarrow> error + nd list" where
  "getitem a [] = Inr a"
| "getitem (Scalar v) (s # ss) = Inl IndexError"
| "getitem (Arr xs) (s # ss) =
     (case getitems (map (\<lambda>i. xs ! i) (sliceIndices (fst s) (snd s) (length xs))) ss of
        Inl e \<Rightarrow> Inl e
      | Inr ys \<Rightarrow> Inr (Arr ys))"
| "getitems [] ss = Inr []"
| "getitems (x # xs) ss =
     (case getitem x ss of
        Inl e \<Rightarrow> Inl e
      | Inr y \<Rightarrow> (case getitems xs ss of Inl e \<Rightarrow> Inl e | Inr ys \<Rightarrow> Inr (y # ys)))"

text \<open>\<open>del xs[i]\<close> on a Python list: an index outside \<open>[-len, len)\<close> is an IndexError.\<close>

definition delAt :: "int \<Rightarrow> 'a list \<Rightarrow> error + 'a list" where
  "delAt i xs =
     (let n = int (length xs) in
      if i < - n \<or> n \<le> i then Inl IndexError
      else (let k = nat (if i < 0 then i + n else i) in Inr (take k xs @ drop (Suc k) xs)))"

section \<open>Projections and subsampling\<close>

text \<open>
  Modelled from the spec: \<open>Data.__finalize__\<close> (thunder.rdds.data) is not among the
  sources. The cached shape and dtype of a collection are invalidated only by
  operations that change geometry: a derived collection keeps, of the metadata
  attributes \<open>_dtype\<close>, \<open>_dims\<close> and \<open>_nimages\<close>, the values it was constructed with and takes
  the others from the collection it derives from.
\<close>

definition finalize :: "images \<Rightarrow> images \<Rightarrow> images" where
  "finalize self other =
     self\<lparr>u_dims := (case u_dims self of None \<Rightarrow> u_dims other | Some d \<Rightarrow> Some d),
          u_nimages := (case u_nimages self of None \<Rightarrow> u_nimages other | Some n \<Rightarrow> Some n),
          u_dtype := (case u_dtype self of None \<Rightarrow> u_dtype other | Some t \<Rightarrow> Some t)\<rparr>"

text \<open>
  \<open>maxProjection\<close> and \<open>maxminProjection\<close>. Each returns the new collection and the
  receiver, whose caches the reads of \<open>self.dims\<close> may have filled. \<open>size(self.dims)\<close> is
  the number of axes. The \<open>mapValues\<close> is lazy: its per-record function runs when the new
  collection is computed, not in the call.
\<close>

definition maxProjection :: "images \<Rightarrow> int \<Rightarrow> error + (images \<times> images)" where
  "maxProjection self axis =
     bindE (dims self) (\<lambda>(d, self1).
     if axis \<ge> int (length d) then Inl PyException
     else
       (let proj = mapValues (\<lambda>x. amax x axis) (rdd self1) in
        bindE (dims self1) (\<lambda>(d', self2).
        bindE (delAt axis d') (\<lambda>newdims.
        bindE (Images proj (DimsSeq newdims) None None) (\<lambda>new.
        Inr (finalize new self2, self2))))))"

definition maxminProjection :: "images \<Rightarrow> int \<Rightarrow> error + (images \<times> images)" where
  "maxminProjection self axis =
     (let proj = mapValues (\<lambda>x. bindE (amax x axis) (\<lambda>a. bindE (amin x axis) (\<lambda>b. add a b)))
                   (rdd self) in
      bindE (dims self) (\<lambda>(d', self2).
      bindE (delAt axis d') (\<lambda>newdims.
      bindE (Images proj (DimsSeq newdims) None None) (\<lambda>new.
      Inr (finalize new self2, self2)))))"

text \<open>
  \<open>subsample\<close>. The sampling factor is one integer, repeated for every axis, or a
  sequence of integers; \<open>dims[i] / samplefactor[i]\<close> is Python 2's integer division.
\<close>

datatype samplefactor = SfInt int | SfSeq "int list"

definition subsample :: "images \<Rightarrow> samplefactor \<Rightarrow> error + (images \<times> images)" where
  "subsample self sf =
     bindE (dims self) (\<lambda>(d, self1).
     let ndims = length d;
         sfs = (case sf of SfInt f \<Rightarrow> replicate ndims f | SfSeq fs \<Rightarrow> fs)
     in
     if list_ex (\<lambda>f. f \<le> 0) sfs then Inl ValueError
     else if length sfs < ndims then Inl IndexError
     else
       (let sampleslices = map (\<lambda>i. (d ! i, sfs ! i)) [0 ..< ndims];
            newdims = map (\<lambda>i. (d ! i) div (sfs ! i)) [0 ..< ndims]
        in
        bindE (Images (mapValues (\<lambda>v. bindE (getitem (body v) sampleslices)
                                           (\<lambda>b. Inr (v\<lparr>body := b\<rparr>)))
                         (rdd self1))
                 (DimsSeq newdims) None None) (\<lambda>new.
        Inr (finalize new self1, self1))))"

section \<open>The filters\<close>

text \<open>
  The collections are those of the section on Spark: the per-record function of
  \<open>mapValues\<close> receives the array of a record as Spark hands it to a task, and the array
  it returns is the record of the new collection.
\<close>















section \<open>An instance of the collaborators\<close>

text \<open>
  A small strategy module on which the theorems below are exercised, an instance of
  the parameters of \<open>toBlocks\<close>. A strategy is its class, its splits per axis and, once
  bound, the metadata of the collection. The constructor is \<open>strategyInit\<close>, the
  constructor as the specification has it; of a tuple of integers it requires the
  counts positive, a \<open>GeometryError\<close> otherwise. The blocking function cuts a
  two-dimensional array into its single cells, row by row; the combining function
  stacks the fragments of one spatial key in ascending order of the image key and
  refuses an incomplete group.
\<close>

type_synonym exStrategy = "stratClass \<times> int list \<times> meta option"
type_synonym exBlock = "int list \<times> nd list"

definition exBuild :: "stratClass \<Rightarrow> int list \<Rightarrow> pyobj \<Rightarrow> error + exStrategy" where
  "exBuild c counts padding =
     (if list_ex (\<lambda>n. n \<le> 0) counts then Inl GeometryError else Inr (c, counts, None))"

fun exAverage :: "exStrategy \<Rightarrow> error + int" where
  "exAverage (c, sp, Some (d, n, t)) = Inr ((prod_list d * 8 * n) div prod_list sp)"
| "exAverage (c, sp, None) = Inl NotBoundError"

definition exCells :: "key \<Rightarrow> ndarray \<Rightarrow> nat \<times> nd \<Rightarrow> (blockingKey \<times> ndarray) list" where
  "exCells k a ir =
     (case snd ir of
        Scalar v \<Rightarrow> []
      | Arr cells \<Rightarrow>
          map (\<lambda>(j, c). (\<lparr>origKey = k, spatialKey = [int (fst ir), int j]\<rparr>,
                          a\<lparr>body := Arr [Arr [c]]\<rparr>))
              (enumerate 0 cells))"

definition exBlocking :: "exStrategy \<Rightarrow> key \<times> ndarray \<Rightarrow> error + (blockingKey \<times> ndarray) list" where
  "exBlocking s rec =
     (case body (snd rec) of
        Scalar v \<Rightarrow> Inl ValueError
      | Arr rows \<Rightarrow> Inr (concat (map (exCells (fst rec) (snd rec)) (enumerate 0 rows))))"

fun exCombining :: "exStrategy \<Rightarrow> int list \<times> (blockingKey \<times> ndarray) list \<Rightarrow> error + exBlock" where
  "exCombining (c, sp, Some (d, n, t)) (k, frags) =
     (if int (length frags) \<noteq> n then Inl IncompleteBlockError
      else Inr (k, map (\<lambda>f. body (snd f)) (sort_key (\<lambda>f. origKey (fst f)) frags)))"
| "exCombining (c, sp, None) (k, frags) = Inl NotBoundError"

definition exModule :: "(exStrategy, exBlock, string \<times> (error + exBlock list)) collaborators" where
  "exModule =
     \<lparr>generateFromBlockSize = (\<lambda>c m v p. Inr (c, map (\<lambda>x. 1) (fst m), None)),
      newStrategy = strategyInit exBuild,
      setImages = (\<lambda>s m. Inr (fst s, fst (snd s), Some m)),
      calcAverageBlockSize = exAverage,
      DEFAULT_MAX_BLOCK_SIZE = 500000000,
      getBlocksClass = (\<lambda>s. if fst s = SimpleBlockingStrategy then ''SimpleBlocks''
                              else ''PaddedBlocks''),
      blockingFunction = exBlocking,
      combiningFunction = exCombining,
      Blocks_toSeries = (\<lambda>blk. Inr (b_class blk, b_rdd blk))\<rparr>"

text \<open>Two images of shape (2, 2) with keys 0 and 1, and the collection built from them.\<close>

definition exArray :: "int \<Rightarrow> ndarray" where
  "exArray v =
     \<lparr>a_dtype = ''int16'', writeable = False,
      body = Arr [Arr [Scalar v, Scalar (v + 1)], Arr [Scalar (v + 2), Scalar (v + 3)]]\<rparr>"

definition exImages :: images where
  "exImages =
     \<lparr>rdd = Inr [(0, exArray 10), (1, exArray 20)], u_dims = None, u_nimages = None,
      u_dtype = None, jobs = []\<rparr>"

text \<open>The Blocks collection and the state of the source that \<open>toBlocks\<close> returns for them.\<close>

definition exBlocks :: "exBlock blocks" where
  "exBlocks =
     \<lparr>b_class = ''SimpleBlocks'',
      b_rdd = Inr [([0, 0], [Arr [Arr [Scalar 10]], Arr [Arr [Scalar 20]]]),
                   ([1, 0], [Arr [Arr [Scalar 12]], Arr [Arr [Scalar 22]]]),
                   ([0, 1], [Arr [Arr [Scalar 11]], Arr [Arr [Scalar 21]]]),
                   ([1, 1], [Arr [Arr [Scalar 13]], Arr [Arr [Scalar 23]]])],
      b_dims = [2, 2], b_nimages = 2, b_dtype = ''int16''\<rparr>"

definition exImagesProbed :: images where
  "exImagesProbed =
     exImages\<lparr>u_dims := Some [2, 2], u_nimages := Some 2, u_dtype := Some ''int16'',
              jobs := [First, Count]\<rparr>"

text \<open>One image of shape (5,), and one of shape (2, 3).\<close>

definition exLine :: images where
  "exLine =
     \<lparr>rdd = Inr [(0, \<lparr>a_dtype = ''int16'', writeable = False,
                      body = Arr [Scalar 1, Scalar 2, Scalar 3, Scalar 4, Scalar 5]\<rparr>)],
      u_dims = None, u_nimages = None, u_dtype = None, jobs = []\<rparr>"

definition exPlane :: images where
  "exPlane =
     \<lparr>rdd = Inr [(0, \<lparr>a_dtype = ''int16'', writeable = False,
                      body = Arr [Arr [Scalar 1, Scalar 5, Scalar 3],
                                  Arr [Scalar 4, Scalar 2, Scalar 6]]\<rparr>)],
      u_dims = None, u_nimages = None, u_dtype = None, jobs = []\<rparr>"

text \<open>The state of the second collection after its shape was read, and its maximum projection along axis 1.\<close>

definition exPlaneProbed :: images where
  "exPlaneProbed = exPlane\<lparr>u_dims := Some [2, 3], u_dtype := Some ''int16'', jobs := [First]\<rparr>"

definition exPlaneMax :: images where
  "exPlaneMax =
     \<lparr>rdd = Inr [(0, \<lparr>a_dtype = ''int16'', writeable = True, body = Arr [Scalar 5, Scalar 6]\<rparr>)],
      u_dims = Some [2], u_nimages = None, u_dtype = Some ''int16'', jobs = []\<rparr>"

text \<open>
  A collection none of whose actions can run: every job on it raises.
\<close>

definition exBroken :: images where
  "exBroken =
     \<lparr>rdd = Inl PyException, u_dims = None, u_nimages = None, u_dtype = None, jobs = []\<rparr>"









section \<open>Auxiliary facts\<close>

lemma bindE_simps [simp]: "bindE (Inl e) f = Inl e" "bindE (Inr x) f = f x"
  by (simp_all add: bindE_def)

lemma bindE_eq_Inr: "bindE m f = Inr y \<longleftrightarrow> (\<exists>x. m = Inr x \<and> f x = Inr y)"
  by (cases m) simp_all

lemma populate_Inr:
  assumes "populateParamsFromFirstRecord s = Inr (rec, s')"
  shows "u_dims s' \<noteq> None \<and> u_dtype s' \<noteq> None \<and> rdd s' = rdd s \<and> u_nimages s' = u_nimages s"
  using assms
  by (auto simp: populateParamsFromFirstRecord_def Data_populateParamsFromFirstRecord_def
      split: sum.splits prod.splits)

lemma dims_Inr:
  assumes "dims s = Inr (d, s')"
  shows "u_dims s' = Some d \<and> rdd s' = rdd s \<and> u_nimages s' = u_nimages s
       \<and> (if u_dims s = None then u_dtype s' \<noteq> None else s' = s)"
proof (cases "u_dims s")
  case None
  with assms obtain rec where p: "populateParamsFromFirstRecord s = Inr (rec, s')"
    and d: "u_dims s' = Some d"
    by (auto simp: dims_def split: sum.splits option.splits)
  from populate_Inr[OF p] d None show ?thesis by simp
next
  case (Some a)
  with assms show ?thesis by (simp add: dims_def)
qed

lemma nimages_Inr:
  assumes "nimages s = Inr (n, s')"
  shows "u_nimages s' = Some n \<and> rdd s' = rdd s \<and> u_dims s' = u_dims s \<and> u_dtype s' = u_dtype s"
  using assms by (auto simp: nimages_def split: option.splits sum.splits)

lemma dtype_Inr:
  assumes "dtype s = Inr (t, s')"
  shows "u_dtype s' = Some t \<and> rdd s' = rdd s \<and> u_nimages s' = u_nimages s
       \<and> (if u_dtype s = None then u_dims s' \<noteq> None else s' = s)"
proof (cases "u_dtype s")
  case None
  with assms obtain rec where p: "populateParamsFromFirstRecord s = Inr (rec, s')"
    and d: "u_dtype s' = Some t"
    by (auto simp: dtype_def split: sum.splits option.splits)
  from populate_Inr[OF p] d None show ?thesis by simp
next
  case (Some a)
  with assms show ?thesis by (simp add: dtype_def)
qed

lemma probe_cached:
  "u_dims s = Some d \<Longrightarrow> u_nimages s = Some n \<Longrightarrow> u_dtype s = Some t \<Longrightarrow>
   probe s = Inr ((d, n, t), s)"
  by (simp add: probe_def dims_def nimages_def dtype_def)

lemma probe_Inr:
  assumes "probe s = Inr ((d, n, t), s')"
  shows "(\<exists>d'. probe s' = Inr ((d', n, t), s') \<and> ((u_dims s = None) = (u_dtype s = None) \<longrightarrow> d' = d))
       \<and> rdd s' = rdd s"
proof -
  from assms obtain s1 s2 where
    1: "dims s = Inr (d, s1)" and 2: "nimages s1 = Inr (n, s2)" and 3: "dtype s2 = Inr (t, s')"
    by (auto simp: probe_def bindE_eq_Inr)
  note a = dims_Inr[OF 1] and b = nimages_Inr[OF 2] and c = dtype_Inr[OF 3]
  from a b c obtain d' where d': "u_dims s' = Some d'"
    by (cases "u_dtype s2") (auto split: if_splits)
  from b c have n: "u_nimages s' = Some n" by simp
  from c have t: "u_dtype s' = Some t" by simp
  have "(u_dims s = None) = (u_dtype s = None) \<longrightarrow> d' = d"
    using a b c d' by (cases "u_dims s"; cases "u_dtype s") (auto split: if_splits)
  moreover have "rdd s' = rdd s" using a b c by simp
  ultimately show ?thesis using probe_cached[OF d' n t] by blast
qed

lemma probe_twice:
  assumes "probe s = Inr (m, s1)" and "probe s1 = Inr (m', s2)"
  shows "s2 = s1 \<and> probe s1 = Inr (m', s1)"
proof -
  obtain d n t where m: "m = (d, n, t)" by (cases m)
  from probe_Inr[OF assms(1)[unfolded m]] assms(2) show ?thesis by auto
qed

lemma selectStrategy_state:
  assumes "selectStrategy M self spec padding = Inr (s, self1)"
  shows "self1 = self \<or> (\<exists>m. probe self = Inr (m, self1))"
  using assms
  by (auto simp: selectStrategy_def bindE_eq_Inr split: blockSizeSpec.splits if_splits)

lemma boundStrategy_state:
  assumes "boundStrategy M self spec padding = Inr (bound, self1)"
  shows "(\<exists>m. probe self1 = Inr (m, self1)) \<and> rdd self1 = rdd self"
proof -
  from assms obtain s s0 m where
    sel: "selectStrategy M self spec padding = Inr (s, s0)"
    and p: "probe s0 = Inr (m, self1)"
    by (auto simp: boundStrategy_def bindE_eq_Inr)
  obtain d n t where m: "m = (d, n, t)" by (cases m)
  from probe_Inr[OF p[unfolded m]] have 1: "\<exists>m. probe self1 = Inr (m, self1)" "rdd self1 = rdd s0"
    by auto
  from selectStrategy_state[OF sel] have "rdd s0 = rdd self"
  proof
    assume "s0 = self" then show ?thesis by simp
  next
    assume "\<exists>m. probe self = Inr (m, s0)"
    then obtain d n t where "probe self = Inr ((d, n, t), s0)" by (metis prod_cases3)
    from probe_Inr[OF this] show ?thesis by simp
  qed
  with 1 show ?thesis by simp
qed

lemma toBlocks_Inr:
  assumes "toBlocks M self spec padding = Inr (blk, self', out)"
  shows "\<exists>bound avg d n t.
           boundStrategy M self spec padding = Inr (bound, self')
         \<and> calcAverageBlockSize M bound = Inr avg
         \<and> probe self' = Inr ((d, n, t), self')
         \<and> blk = \<lparr>b_class = getBlocksClass M bound,
                   b_rdd = bindE (groupedvals M bound (rdd self')) (mapE (combiningFunction M bound)),
                   b_dims = d, b_nimages = n, b_dtype = t\<rparr>
         \<and> out = (if avg \<ge> DEFAULT_MAX_BLOCK_SIZE M
                   then [BlockSizeWarning avg (DEFAULT_MAX_BLOCK_SIZE M)] else [])"
proof -
  from assms obtain bound self1 avg d n t self2 where
    b: "boundStrategy M self spec padding = Inr (bound, self1)"
    and a: "calcAverageBlockSize M bound = Inr avg"
    and p: "probe self1 = Inr ((d, n, t), self2)"
    and r: "blk = \<lparr>b_class = getBlocksClass M bound,
                  b_rdd = bindE (groupedvals M bound (rdd self1)) (mapE (combiningFunction M bound)),
                  b_dims = d, b_nimages = n, b_dtype = t\<rparr>" "self' = self2"
         "out = (if avg \<ge> DEFAULT_MAX_BLOCK_SIZE M
                   then [BlockSizeWarning avg (DEFAULT_MAX_BLOCK_SIZE M)] else [])"
    by (auto simp: toBlocks_def bindE_eq_Inr Let_def split: prod.splits)
  from boundStrategy_state[OF b] obtain m where m: "probe self1 = Inr (m, self1)" by blast
  with p have "self2 = self1" by simp
  with b a p r show ?thesis by auto
qed

lemma toBlocks_succeeds:
  assumes b: "boundStrategy M self spec padding = Inr (bound, self1)"
    and a: "calcAverageBlockSize M bound = Inr avg"
  shows "\<exists>blk. toBlocks M self spec padding =
           Inr (blk, self1, if avg \<ge> DEFAULT_MAX_BLOCK_SIZE M
                   then [BlockSizeWarning avg (DEFAULT_MAX_BLOCK_SIZE M)] else [])"
proof -
  from boundStrategy_state[OF b] obtain m where m: "probe self1 = Inr (m, self1)" by blast
  show ?thesis using b a m by (cases m) (simp add: toBlocks_def Let_def)
qed


lemma probe_nimages:
  assumes "probe s = Inr ((d, n, t), s')"
  shows "map_sum id fst (nimages s) = Inr n"
proof -
  from assms obtain s1 s2 where
    1: "dims s = Inr (d, s1)" and 2: "nimages s1 = Inr (n, s2)"
    by (auto simp: probe_def bindE_eq_Inr)
  from dims_Inr[OF 1] have "u_nimages s1 = u_nimages s" "rdd s1 = rdd s" by simp_all
  with 2 show ?thesis by (auto simp: nimages_def split: option.splits sum.splits)
qed

lemma boundStrategy_probe:
  assumes "boundStrategy M self spec padding = Inr (bound, self1)"
  shows "\<exists>d n t d'. probe self = Inr ((d, n, t), self1) \<and> probe self1 = Inr ((d', n, t), self1)
            \<and> ((u_dims self = None) = (u_dtype self = None) \<longrightarrow> d' = d)"
proof -
  from assms obtain s s0 m where
    sel: "selectStrategy M self spec padding = Inr (s, s0)"
    and p: "probe s0 = Inr (m, self1)"
    by (auto simp: boundStrategy_def bindE_eq_Inr)
  from selectStrategy_state[OF sel] show ?thesis
  proof
    assume "s0 = self"
    with p have q: "probe self = Inr (m, self1)" by simp
    obtain d n t where "m = (d, n, t)" by (cases m)
    with q probe_Inr[of self d n t self1] show ?thesis by auto
  next
    assume "\<exists>m. probe self = Inr (m, s0)"
    then obtain m0 where m0: "probe self = Inr (m0, s0)" by blast
    from probe_twice[OF m0 p] have e: "self1 = s0" by simp
    obtain d n t where "m0 = (d, n, t)" by (cases m0)
    with m0 e probe_Inr[of self d n t s0] show ?thesis by auto
  qed
qed

lemma selectStrategy_threshold:
  "selectStrategy (M\<lparr>DEFAULT_MAX_BLOCK_SIZE := t\<rparr>) self spec padding
     = selectStrategy M self spec padding"
  by (simp add: selectStrategy_def split: blockSizeSpec.splits)

lemma boundStrategy_threshold:
  "boundStrategy (M\<lparr>DEFAULT_MAX_BLOCK_SIZE := t\<rparr>) self spec padding
     = boundStrategy M self spec padding"
  by (simp add: boundStrategy_def selectStrategy_threshold)

lemma groupedvals_threshold:
  "groupedvals (M\<lparr>DEFAULT_MAX_BLOCK_SIZE := t\<rparr>) bound r = groupedvals M bound r"
  by (simp add: groupedvals_def)

lemma groupBy_keys: "map fst (groupBy f xs) = remdups (map f xs)"
  by (simp add: groupBy_def comp_def)

lemma groupBy_member:
  assumes "g \<in> set (groupBy f xs)"
  shows "snd g = filter (\<lambda>x. f x = fst g) xs" and "filter (\<lambda>x. f x = fst g) xs \<noteq> []"
  using assms by (auto simp: groupBy_def filter_empty_conv)

lemma filter_key_single:
  assumes "distinct (map f ys)" and "k \<in> set ys"
  shows "filter (\<lambda>x. f k = f x) ys = [k]"
  using assms
proof (induction ys)
  case Nil
  then show ?case by simp
next
  case (Cons y ys)
  show ?case
  proof (cases "k = y")
    case True
    with Cons.prems have "\<forall>x \<in> set ys. f x \<noteq> f y" by (auto simp: image_iff)
    then have "filter (\<lambda>x. f y = f x) ys = []" by (auto simp: filter_empty_conv)
    with True show ?thesis by simp
  next
    case False
    with Cons.prems have "k \<in> set ys" "f k \<noteq> f y" "distinct (map f ys)" by (auto simp: image_iff)
    with Cons.IH show ?thesis by simp
  qed
qed

lemma sort_key_unique:
  assumes m: "mset xs = mset ys" and d: "distinct (map f ys)"
  shows "sort_key f xs = sort_key f ys"
proof (rule properties_for_sort_key)
  show "mset (sort_key f ys) = mset xs" using m by simp
  show "sorted (map f (sort_key f ys))" by simp
  fix k assume k: "k \<in> set (sort_key f ys)"
  have dx: "distinct (map f xs)"
    using d m by (metis distinct_map mset_eq_setD mset_eq_imp_distinct_iff)
  have ds: "distinct (map f (sort_key f ys))"
    using d by (metis distinct_map mset_eq_setD mset_eq_imp_distinct_iff mset_sort)
  from k have "k \<in> set xs" using m by (metis mset_eq_setD set_sort)
  with dx have "filter (\<lambda>x. f k = f x) xs = [k]" by (rule filter_key_single)
  moreover from ds k have "filter (\<lambda>x. f k = f x) (sort_key f ys) = [k]" by (rule filter_key_single)
  ultimately show "filter (\<lambda>x. f k = f x) (sort_key f ys) = filter (\<lambda>x. f k = f x) xs" by simp
qed


lemma sort_key_distinct:
  "distinct (map f xs) \<Longrightarrow> distinct (map f (sort_key f xs))"
  by (metis distinct_map mset_eq_setD mset_eq_imp_distinct_iff mset_sort)

lemma groupBy_revkeys_distinct:
  "distinct (map (\<lambda>(k, _). rev k) (groupBy f xs))"
proof -
  have "map (\<lambda>(k, _). rev k) (groupBy f xs) = map rev (remdups (map f xs))"
    by (simp add: groupBy_def comp_def)
  then show ?thesis by (simp add: distinct_map)
qed

lemma sortBy_groupBy_sorted:
  "sorted_wrt (<) (map (\<lambda>(k, _). rev k) (sortBy (\<lambda>(k, _). rev k) (groupBy f xs)))"
  unfolding strict_sorted_iff sortBy_def
  by (intro conjI sorted_sort_key sort_key_distinct groupBy_revkeys_distinct)

lemma sortBy_mset: "mset (sortBy f xs) = mset xs"
  by (simp add: sortBy_def)

lemma sortBy_set: "set (sortBy f xs) = set xs"
  by (simp add: sortBy_def)

lemma sortBy_groupBy_unique:
  "mset groups' = mset (groupBy f xs) \<Longrightarrow>
   sortBy (\<lambda>(k, _). rev k) groups' = sortBy (\<lambda>(k, _). rev k) (groupBy f xs)"
  unfolding sortBy_def by (rule sort_key_unique[OF _ groupBy_revkeys_distinct])

lemma groupBy_keys_set: "fst ` set (groupBy f xs) = f ` set xs"
  by (auto simp: groupBy_def image_iff)


lemma groupBy_spatialKey_member:
  fixes vals :: "(blockingKey \<times> 'v) list"
  assumes "g \<in> set (groupBy (\<lambda>(k, _). spatialKey k) vals)"
  shows "snd g = filter (\<lambda>(k, _). spatialKey k = fst g) vals \<and> snd g \<noteq> []"
proof -
  have e: "(\<lambda>(k, _). spatialKey k = fst g)
             = (\<lambda>x :: blockingKey \<times> 'v. (case x of (k, _) \<Rightarrow> spatialKey k) = fst g)"
    by (simp add: fun_eq_iff case_prod_unfold)
  from groupBy_member[OF assms] show ?thesis
    by (simp only: e simp_thms)
qed

text \<open>
  The order of two keys of the same rank by their reversed tuples: they agree on the
  axes after some position, and differ there; the axes before it do not matter.
\<close>

lemma rev_less_iff:
  fixes a b :: "int list"
  assumes "length a = length b"
  shows "rev a < rev b \<longleftrightarrow>
         (\<exists>p q x y s. a = p @ x # s \<and> b = q @ y # s \<and> x < y \<and> length p = length q)"
proof
  assume "rev a < rev b"
  then have "(rev a, rev b) \<in> lexord {(u, v). u < v}" by (simp add: list_less_def)
  then consider (pre) c v where "rev b = rev a @ c # v"
    | (diff) u x y v w where "x < y" "rev a = u @ x # v" "rev b = u @ y # w"
    by (auto simp: lexord_def)
  then show "\<exists>p q x y s. a = p @ x # s \<and> b = q @ y # s \<and> x < y \<and> length p = length q"
  proof cases
    case pre
    then have "length (rev b) = length (rev a) + Suc (length v)" by simp
    with assms show ?thesis by simp
  next
    case diff
    from diff(2) have "rev (rev a) = rev (u @ x # v)" by simp
    then have a: "a = rev v @ x # rev u" by simp
    from diff(3) have "rev (rev b) = rev (u @ y # w)" by simp
    then have b: "b = rev w @ y # rev u" by simp
    from a b assms have "length (rev v) = length (rev w)" by simp
    with a b diff(1) show ?thesis by blast
  qed
next
  assume "\<exists>p q x y s. a = p @ x # s \<and> b = q @ y # s \<and> x < y \<and> length p = length q"
  then obtain p q x y s where "a = p @ x # s" "b = q @ y # s" "x < y" by blast
  then have "rev a = rev s @ x # rev p" "rev b = rev s @ y # rev q" "x < y" by simp_all
  then have "(rev a, rev b) \<in> lexord {(u, v). u < v}" by (auto simp: lexord_def)
  then show "rev a < rev b" by (simp add: list_less_def)
qed

lemma dims_cached: "u_dims s = Some d \<Longrightarrow> dims s = Inr (d, s)"
  by (simp add: dims_def)

lemma dims_idem: "dims s = Inr (d, s1) \<Longrightarrow> dims s1 = Inr (d, s1)"
  by (rule dims_cached) (simp add: dims_Inr)

lemma Images_DimsSeq:
  "Images r (DimsSeq nd) n t = Inr new \<Longrightarrow> u_dims new = Some nd"
  by (auto simp: Images_def fromTuple_def split: if_splits sum.splits)

lemma finalize_dims: "u_dims new = Some nd \<Longrightarrow> u_dims (finalize new other) = Some nd"
  by (simp add: finalize_def)

lemma delAt_Inr:
  "delAt i xs = Inr ys \<Longrightarrow>
     - int (length xs) \<le> i \<and> i < int (length xs)
     \<and> ys = take (nat (if i < 0 then i + int (length xs) else i)) xs
            @ drop (Suc (nat (if i < 0 then i + int (length xs) else i))) xs"
  by (auto simp: delAt_def Let_def split: if_splits)

lemma delAt_out_of_range: "int (length xs) \<le> i \<Longrightarrow> delAt i xs = Inl IndexError"
  by (simp add: delAt_def Let_def)

lemma projection_result:
  assumes d: "dims s = Inr (d, s2)"
    and r: "bindE (delAt axis d) (\<lambda>newdims.
              bindE (Images proj (DimsSeq newdims) None None) (\<lambda>new.
              Inr (finalize new s2, s2))) = Inr (res, self')"
  shows "self' = s2 \<and> - int (length d) \<le> axis \<and> axis < int (length d)
       \<and> dims res = Inr (take (nat (if axis < 0 then axis + int (length d) else axis)) d
                           @ drop (Suc (nat (if axis < 0 then axis + int (length d) else axis))) d,
                         res)"
proof -
  from r obtain newdims new where
    1: "delAt axis d = Inr newdims"
    and 2: "Images proj (DimsSeq newdims) None None = Inr new"
    and 3: "res = finalize new s2" "self' = s2"
    by (auto simp: bindE_eq_Inr)
  from Images_DimsSeq[OF 2] have "u_dims res = Some newdims"
    unfolding 3 by (rule finalize_dims)
  then have "dims res = Inr (newdims, res)" by (rule dims_cached)
  with delAt_Inr[OF 1] 3 show ?thesis by simp
qed

lemma sliceIndices_length:
  "0 < f \<Longrightarrow> 0 \<le> s \<Longrightarrow> length (sliceIndices s f (nat s)) = nat ((s + f - 1) div f)"
  by (simp add: sliceIndices_def)

lemma floor_less_ceiling:
  fixes s f :: int
  assumes "0 < f" and "\<not> f dvd s"
  shows "s div f < (s + f - 1) div f"
proof -
  have "0 < s mod f" using assms by (simp add: dvd_eq_mod_eq_0 pos_mod_sign order.strict_iff_order)
  then have "(s div f + 1) * f \<le> s + f - 1"
    using assms(1) by (simp add: algebra_simps) (metis add.commute add_le_cancel_left div_mult_mod_eq int_one_le_iff_zero_less mult.commute)
  then have "((s div f + 1) * f) div f \<le> (s + f - 1) div f"
    using assms(1) by (rule zdiv_mono1)
  moreover have "((s div f + 1) * f) div f = s div f + 1"
    using assms(1) by simp
  ultimately show ?thesis by simp
qed

text \<open>
  An unrecognised value reaches the constructor of the strategy class before \<open>toBlocks\<close>
  does anything else.
\<close>

lemma toBlocks_constructor_branch:
  assumes "\<not> isStringOrInt v"
  shows "toBlocks M self (SpecValue v) padding =
           bindE (newStrategy M (stratClassFor padding) v padding)
                 (\<lambda>s. toBlocks M self (SpecStrategy s) padding)"
  using assms
  by (simp add: toBlocks_def boundStrategy_def selectStrategy_def bindE_def split: sum.splits)




















section \<open>Blocks are grouped by spatial key, then sorted by the reversed key\<close>

text \<open>
  Claim C1. The records of the returned Blocks collection are obtained by applying the
  blocking function of the bound strategy to every record on its own (\<open>flatMap\<close>),
  grouping the fragments by spatial key, sorting the groups by the reversed key tuple
  and only then combining each group. For every list of fragments the sorted groups are
  in strictly ascending order of the reversed key, they are the same groups as before
  the sort (as a multiset), each group holds exactly the fragments of its key and is
  not empty, every key that occurs has its group, and the sorted list does not depend
  on the order in which the grouping delivered the groups. By \<open>rev_less_iff\<close> a key comes
  before another of the same rank exactly when it is smaller at the last axis where the
  two differ: the axis listed first changes fastest.
\<close>

theorem toBlocks_groups_then_sorts:
  assumes "toBlocks M self spec padding = Inr (blk, self', out)"
  shows "\<exists>bound.
     b_rdd blk =
       bindE (flatMap (blockingFunction M bound) (rdd self)) (\<lambda>vals.
         mapE (combiningFunction M bound)
           (sortBy (\<lambda>(k, _). rev k) (groupBy (\<lambda>(k, _). spatialKey k) vals)))
   \<and> (\<forall>vals :: (blockingKey \<times> ndarray) list.
        sorted_wrt (<) (map (\<lambda>(k, _). rev k)
          (sortBy (\<lambda>(k, _). rev k) (groupBy (\<lambda>(k, _). spatialKey k) vals)))
      \<and> mset (sortBy (\<lambda>(k, _). rev k) (groupBy (\<lambda>(k, _). spatialKey k) vals))
          = mset (groupBy (\<lambda>(k, _). spatialKey k) vals)
      \<and> (\<forall>g \<in> set (sortBy (\<lambda>(k, _). rev k) (groupBy (\<lambda>(k, _). spatialKey k) vals)).
            snd g = filter (\<lambda>(k, _). spatialKey k = fst g) vals \<and> snd g \<noteq> [])
      \<and> fst ` set (sortBy (\<lambda>(k, _). rev k) (groupBy (\<lambda>(k, _). spatialKey k) vals))
          = (\<lambda>(k, _). spatialKey k) ` set vals
      \<and> (\<forall>groups'. mset groups' = mset (groupBy (\<lambda>(k, _). spatialKey k) vals) \<longrightarrow>
            sortBy (\<lambda>(k, _). rev k) groups'
              = sortBy (\<lambda>(k, _). rev k) (groupBy (\<lambda>(k, _). spatialKey k) vals)))"
proof -
  from toBlocks_Inr[OF assms] obtain bound where
    b: "boundStrategy M self spec padding = Inr (bound, self')"
    and r: "b_rdd blk = bindE (groupedvals M bound (rdd self')) (mapE (combiningFunction M bound))"
    by auto
  from boundStrategy_state[OF b] have "rdd self' = rdd self" by simp
  with r have 1: "b_rdd blk =
       bindE (flatMap (blockingFunction M bound) (rdd self)) (\<lambda>vals.
         mapE (combiningFunction M bound)
           (sortBy (\<lambda>(k, _). rev k) (groupBy (\<lambda>(k, _). spatialKey k) vals)))"
    by (simp add: groupedvals_def bindE_def split: sum.splits)
  show ?thesis
  proof (intro exI[of _ bound] conjI allI impI ballI)
    show "b_rdd blk =
       bindE (flatMap (blockingFunction M bound) (rdd self)) (\<lambda>vals.
         mapE (combiningFunction M bound)
           (sortBy (\<lambda>(k, _). rev k) (groupBy (\<lambda>(k, _). spatialKey k) vals)))"
      by (rule 1)
  next
    fix vals :: "(blockingKey \<times> ndarray) list"
    show "sorted_wrt (<) (map (\<lambda>(k, _). rev k)
          (sortBy (\<lambda>(k, _). rev k) (groupBy (\<lambda>(k, _). spatialKey k) vals)))"
      by (rule sortBy_groupBy_sorted)
    show "mset (sortBy (\<lambda>(k, _). rev k) (groupBy (\<lambda>(k, _). spatialKey k) vals))
          = mset (groupBy (\<lambda>(k, _). spatialKey k) vals)"
      by (rule sortBy_mset)
    show "fst ` set (sortBy (\<lambda>(k, _). rev k) (groupBy (\<lambda>(k, _). spatialKey k) vals))
          = (\<lambda>(k, _). spatialKey k) ` set vals"
      by (simp only: sortBy_set groupBy_keys_set)
  next
    fix vals :: "(blockingKey \<times> ndarray) list" and g
    assume "g \<in> set (sortBy (\<lambda>(k, _). rev k) (groupBy (\<lambda>(k, _). spatialKey k) vals))"
    then have g: "g \<in> set (groupBy (\<lambda>(k, _). spatialKey k) vals)"
      by (simp only: sortBy_set)
    from groupBy_spatialKey_member[OF g]
    show "snd g = filter (\<lambda>(k, _). spatialKey k = fst g) vals" and "snd g \<noteq> []"
      by blast+
  next
    fix vals :: "(blockingKey \<times> ndarray) list" and groups'
    assume "mset groups' = mset (groupBy (\<lambda>(k, _). spatialKey k) vals)"
    then show "sortBy (\<lambda>(k, _). rev k) groups'
              = sortBy (\<lambda>(k, _). rev k) (groupBy (\<lambda>(k, _). spatialKey k) vals)"
      by (rule sortBy_groupBy_unique)
  qed
qed

text \<open>
  On two images of shape (2, 2) cut into their four cells the keys come out as
  (0, 0), (1, 0), (0, 1), (1, 1): the axis listed first changes fastest.
\<close>

lemma exBlocks_eval:
  "toBlocks exModule exImages (SpecValue (PyTuple [PyInt 2, PyInt 2])) (PyInt 0)
     = Inr (exBlocks, exImagesProbed, [])"
  by code_simp

theorem toBlocks_groups_then_sorts_witness:
  "toBlocks exModule exImages (SpecValue (PyTuple [PyInt 2, PyInt 2])) (PyInt 0)
     = Inr (exBlocks, exImagesProbed, [])
   \<and> map_sum id (map fst) (b_rdd exBlocks) = Inr [[0, 0], [1, 0], [0, 1], [1, 1]]
   \<and> (\<exists>bound.
        b_rdd exBlocks
        = bindE (flatMap (blockingFunction exModule bound) (rdd exImages)) (\<lambda>vals.
            mapE (combiningFunction exModule bound)
              (sortBy (\<lambda>(k, _). rev k) (groupBy (\<lambda>(k, _). spatialKey k) vals))))"
proof (intro conjI)
  show "toBlocks exModule exImages (SpecValue (PyTuple [PyInt 2, PyInt 2])) (PyInt 0)
     = Inr (exBlocks, exImagesProbed, [])"
    by (rule exBlocks_eval)
  show "map_sum id (map fst) (b_rdd exBlocks) = Inr [[0, 0], [1, 0], [0, 1], [1, 1]]"
    by (simp add: exBlocks_def)
  show "\<exists>bound.
        b_rdd exBlocks
        = bindE (flatMap (blockingFunction exModule bound) (rdd exImages)) (\<lambda>vals.
            mapE (combiningFunction exModule bound)
              (sortBy (\<lambda>(k, _). rev k) (groupBy (\<lambda>(k, _). spatialKey k) vals)))"
    using toBlocks_groups_then_sorts[OF exBlocks_eval]
    apply (elim exE conjE)
    apply (rule exI)
    apply assumption
    done
qed

section \<open>The Blocks collection carries the metadata of its source\<close>

text \<open>
  Claim C2. When \<open>toBlocks\<close> succeeds, the \<open>dims\<close>, \<open>nimages\<close> and \<open>dtype\<close> of the
  returned Blocks collection are the values of the three properties of the source
  collection: reading them on the source after the call returns exactly these values
  and changes nothing, and the records of the source are the same as before. They are
  also the values the properties had before the call: always for \<open>nimages\<close>, and for
  all three when the caches \<open>_dims\<close> and \<open>_dtype\<close> were both empty or both filled (a
  read of one of the two from the first record refreshes the other).
\<close>

theorem toBlocks_carries_metadata:
  assumes "toBlocks M self spec padding = Inr (blk, self', out)"
  shows "probe self' = Inr ((b_dims blk, b_nimages blk, b_dtype blk), self')
       \<and> rdd self' = rdd self
       \<and> map_sum id fst (nimages self) = Inr (b_nimages blk)
       \<and> ((u_dims self = None) = (u_dtype self = None) \<longrightarrow>
            map_sum id fst (probe self) = Inr (b_dims blk, b_nimages blk, b_dtype blk))"
proof -
  from toBlocks_Inr[OF assms] obtain bound d n t where
    b: "boundStrategy M self spec padding = Inr (bound, self')"
    and p: "probe self' = Inr ((d, n, t), self')"
    and k: "b_dims blk = d" "b_nimages blk = n" "b_dtype blk = t"
    by auto
  from boundStrategy_probe[OF b] p obtain d0 where
    p0: "probe self = Inr ((d0, n, t), self')"
    and c: "(u_dims self = None) = (u_dtype self = None) \<longrightarrow> d = d0"
    by auto
  from boundStrategy_state[OF b] have "rdd self' = rdd self" by simp
  with p k p0 c probe_nimages[OF p0] show ?thesis by auto
qed

theorem toBlocks_carries_metadata_witness:
  "toBlocks exModule exImages (SpecValue (PyTuple [PyInt 2, PyInt 2])) (PyInt 0)
     = Inr (\<lparr>b_class = ''SimpleBlocks'',
             b_rdd = Inr [([0, 0], [Arr [Arr [Scalar 10]], Arr [Arr [Scalar 20]]]),
                          ([1, 0], [Arr [Arr [Scalar 12]], Arr [Arr [Scalar 22]]]),
                          ([0, 1], [Arr [Arr [Scalar 11]], Arr [Arr [Scalar 21]]]),
                          ([1, 1], [Arr [Arr [Scalar 13]], Arr [Arr [Scalar 23]]])],
             b_dims = [2, 2], b_nimages = 2, b_dtype = ''int16''\<rparr>,
            exImages\<lparr>u_dims := Some [2, 2], u_nimages := Some 2, u_dtype := Some ''int16'',
                     jobs := [First, Count]\<rparr>, [])
   \<and> map_sum id fst (probe exImages) = Inr ([2, 2], 2, ''int16'')"
proof -
  have e: "toBlocks exModule exImages (SpecValue (PyTuple [PyInt 2, PyInt 2])) (PyInt 0)
     = Inr (\<lparr>b_class = ''SimpleBlocks'',
             b_rdd = Inr [([0, 0], [Arr [Arr [Scalar 10]], Arr [Arr [Scalar 20]]]),
                          ([1, 0], [Arr [Arr [Scalar 12]], Arr [Arr [Scalar 22]]]),
                          ([0, 1], [Arr [Arr [Scalar 11]], Arr [Arr [Scalar 21]]]),
                          ([1, 1], [Arr [Arr [Scalar 13]], Arr [Arr [Scalar 23]]])],
             b_dims = [2, 2], b_nimages = 2, b_dtype = ''int16''\<rparr>,
            exImages\<lparr>u_dims := Some [2, 2], u_nimages := Some 2, u_dtype := Some ''int16'',
                     jobs := [First, Count]\<rparr>, [])"
    by code_simp
  have c: "(u_dims exImages = None) = (u_dtype exImages = None)"
    by (simp add: exImages_def)
  from toBlocks_carries_metadata[OF e] c e show ?thesis by simp
qed

section \<open>An unrecognised block size specification\<close>

text \<open>
  Claim C3. A \<open>blockSizeSpec\<close> that is neither a strategy instance, nor a string or an
  integer, nor a tuple of integers makes \<open>toBlocks\<close> raise \<open>TypeSpecError\<close>. \<open>toBlocks\<close>
  has no test of its own for such a value: handing it to the constructor of the
  strategy class is the first thing \<open>toBlocks\<close> does (\<open>toBlocks_constructor_branch\<close>), and
  the constructor, modelled from the specification, raises. The error comes before any
  property of the collection is read and before any job runs: it is the result for
  every collection, also for one none of whose jobs can run.
\<close>

theorem unrecognized_spec_raises_TypeSpecError:
  assumes "newStrategy M = strategyInit build"
    and "\<not> isStringOrInt v"
    and "splitCounts v = None"
  shows "toBlocks M self (SpecValue v) padding = Inl TypeSpecError"
  using assms by (simp add: toBlocks_constructor_branch strategyInit_def)

text \<open>
  \<open>None\<close> on a collection whose every job raises, and a tuple with a string in it.
\<close>

theorem unrecognized_spec_raises_TypeSpecError_witness:
  "newStrategy exModule = strategyInit exBuild
   \<and> \<not> isStringOrInt PyNone \<and> splitCounts PyNone = None
   \<and> toBlocks exModule exBroken (SpecValue PyNone) (PyInt 0) = Inl TypeSpecError
   \<and> \<not> isStringOrInt (PyTuple [PyInt 2, PyStr ''2'']) \<and> splitCounts (PyTuple [PyInt 2, PyStr ''2'']) = None
   \<and> toBlocks exModule exImages (SpecValue (PyTuple [PyInt 2, PyStr ''2''])) (PyInt 1) = Inl TypeSpecError"
  using unrecognized_spec_raises_TypeSpecError[of exModule exBuild PyNone exBroken "PyInt 0"]
    unrecognized_spec_raises_TypeSpecError[of exModule exBuild "PyTuple [PyInt 2, PyStr ''2'']" exImages "PyInt 1"]
  by (simp add: exModule_def)

section \<open>The choice between the unpadded and the padded strategy\<close>

text \<open>
  Claim C4, as amended. The strategy class is chosen by \<open>not padding\<close>, Python's truth
  value: the unpadded class exactly when \<open>padding\<close> is falsy, which for an integer means
  0 and for a tuple means the empty tuple; every other integer and every non-empty
  tuple, a tuple of zeros included, selects the padded class. The class is used only
  when \<open>blockSizeSpec\<close> is not itself a strategy instance: an instance is taken as it is,
  whatever \<open>padding\<close> says.
\<close>

theorem stratClass_follows_truth_value:
  "(stratClassFor padding = SimpleBlockingStrategy) = (\<not> truthy padding)
   \<and> (stratClassFor padding = PaddedBlockingStrategy) = truthy padding
   \<and> (stratClassFor (PyInt n) = SimpleBlockingStrategy) = (n = 0)
   \<and> (stratClassFor (PyTuple xs) = SimpleBlockingStrategy) = (xs = [])
   \<and> selectStrategy M self (SpecValue v) padding =
       (if isStringOrInt v then
          bindE (probe self) (\<lambda>(m, self1).
          bindE (generateFromBlockSize M (stratClassFor padding) m v padding) (\<lambda>s.
          Inr (s, self1)))
        else bindE (newStrategy M (stratClassFor padding) v padding) (\<lambda>s. Inr (s, self)))
   \<and> selectStrategy M self (SpecStrategy s) padding = Inr (s, self)"
  by (simp add: stratClassFor_def selectStrategy_def)

text \<open>The tuple (0, 0) is non-empty, hence truthy: it selects the padded class.\<close>

theorem zero_tuple_selects_padded:
  "stratClassFor (PyTuple [PyInt 0, PyInt 0]) = PaddedBlockingStrategy
   \<and> map_sum id (\<lambda>r. fst (fst r))
        (selectStrategy exModule exImages (SpecValue (PyTuple [PyInt 2, PyInt 2]))
           (PyTuple [PyInt 0, PyInt 0]))
      = Inr PaddedBlockingStrategy"
  by (simp add: stratClassFor_def selectStrategy_def exModule_def strategyInit_def exBuild_def)

section \<open>The warning about large blocks\<close>

text \<open>
  Claim C5. The maximum block size enters \<open>toBlocks\<close> only through the printed line:
  with any other threshold the call fails or succeeds alike and returns the same Blocks
  collection and the same state of the source. Once the strategy is bound and its average
  block size computed, \<open>toBlocks\<close> succeeds, with the warning printed exactly when the
  average reaches the threshold.
\<close>

theorem warning_never_changes_result:
  "map_sum id (\<lambda>r. (fst r, fst (snd r))) (toBlocks (M\<lparr>DEFAULT_MAX_BLOCK_SIZE := t\<rparr>) self spec padding)
     = map_sum id (\<lambda>r. (fst r, fst (snd r))) (toBlocks M self spec padding)
   \<and> (boundStrategy M self spec padding = Inr (bound, self1)
        \<and> calcAverageBlockSize M bound = Inr avg \<longrightarrow>
       (\<exists>blk. toBlocks M self spec padding =
           Inr (blk, self1, if avg \<ge> DEFAULT_MAX_BLOCK_SIZE M
                            then [BlockSizeWarning avg (DEFAULT_MAX_BLOCK_SIZE M)] else [])))"
proof
  show "map_sum id (\<lambda>r. (fst r, fst (snd r))) (toBlocks (M\<lparr>DEFAULT_MAX_BLOCK_SIZE := t\<rparr>) self spec padding)
     = map_sum id (\<lambda>r. (fst r, fst (snd r))) (toBlocks M self spec padding)"
    by (simp add: toBlocks_def boundStrategy_threshold groupedvals_threshold Let_def bindE_def
        split: sum.splits prod.splits)
next
  show "boundStrategy M self spec padding = Inr (bound, self1)
        \<and> calcAverageBlockSize M bound = Inr avg \<longrightarrow>
       (\<exists>blk. toBlocks M self spec padding =
           Inr (blk, self1, if avg \<ge> DEFAULT_MAX_BLOCK_SIZE M
                            then [BlockSizeWarning avg (DEFAULT_MAX_BLOCK_SIZE M)] else []))"
  proof (intro impI, elim conjE)
    assume "boundStrategy M self spec padding = Inr (bound, self1)"
      and "calcAverageBlockSize M bound = Inr avg"
    then show "\<exists>blk. toBlocks M self spec padding =
           Inr (blk, self1, if avg \<ge> DEFAULT_MAX_BLOCK_SIZE M
                            then [BlockSizeWarning avg (DEFAULT_MAX_BLOCK_SIZE M)] else [])"
      by (rule toBlocks_succeeds)
  qed
qed

theorem warning_never_changes_result_witness:
  "map_sum id (\<lambda>r. (fst r, fst (snd r)))
      (toBlocks (exModule\<lparr>DEFAULT_MAX_BLOCK_SIZE := 16\<rparr>) exImages
         (SpecValue (PyTuple [PyInt 2, PyInt 2])) (PyInt 0))
     = map_sum id (\<lambda>r. (fst r, fst (snd r)))
         (toBlocks exModule exImages (SpecValue (PyTuple [PyInt 2, PyInt 2])) (PyInt 0))
   \<and> map_sum id (\<lambda>r. snd (snd r))
        (toBlocks (exModule\<lparr>DEFAULT_MAX_BLOCK_SIZE := 16\<rparr>) exImages
           (SpecValue (PyTuple [PyInt 2, PyInt 2])) (PyInt 0))
      = Inr [BlockSizeWarning 16 16]
   \<and> map_sum id (\<lambda>r. snd (snd r))
        (toBlocks exModule exImages (SpecValue (PyTuple [PyInt 2, PyInt 2])) (PyInt 0))
      = Inr []"
proof -
  have 1: "map_sum id (\<lambda>r. snd (snd r))
        (toBlocks (exModule\<lparr>DEFAULT_MAX_BLOCK_SIZE := 16\<rparr>) exImages
           (SpecValue (PyTuple [PyInt 2, PyInt 2])) (PyInt 0))
      = Inr [BlockSizeWarning 16 16]"
    by code_simp
  have 2: "map_sum id (\<lambda>r. snd (snd r))
        (toBlocks exModule exImages (SpecValue (PyTuple [PyInt 2, PyInt 2])) (PyInt 0))
      = Inr []"
    by code_simp
  from warning_never_changes_result
         [where M = exModule and t = 16 and self = exImages
            and spec = "SpecValue (PyTuple [PyInt 2, PyInt 2])" and padding = "PyInt 0"]
       1 2
  show ?thesis by blast
qed

section \<open>The image count is computed lazily and cached\<close>

text \<open>
  Claim C6. An Images collection constructed without an \<open>nimages\<close> value computes it on
  the first read by counting the records (one \<open>Count\<close> job) and caches it: the second
  read returns the same value and runs no job. After \<open>_resetCounts\<close> the cache is empty
  and the next read counts again (a second \<open>Count\<close> job). When \<open>nimages\<close> was supplied
  at construction, a read returns that value and leaves the object, its job log
  included, as it was.
\<close>

theorem nimages_lazy_cached_reset:
  "(Images (Inr recs) d None t = Inr self \<longrightarrow>
      (let n = int (length recs);
           self1 = self\<lparr>u_nimages := Some n, jobs := [Count]\<rparr>
       in nimages self = Inr (n, self1)
          \<and> nimages self1 = Inr (n, self1)
          \<and> u_nimages (resetCounts self1) = None
          \<and> nimages (resetCounts self1) = Inr (n, self1\<lparr>jobs := [Count, Count]\<rparr>)))
   \<and> (Images r d (Some m) t = Inr self' \<longrightarrow>
        nimages self' = Inr (m, self') \<and> jobs self' = [])"
  by (auto simp: Images_def nimages_def resetCounts_def rdd_count_def Let_def
           split: dims_arg.splits if_splits sum.splits)

theorem nimages_lazy_cached_reset_witness:
  "Images (Inr [(0, \<lparr>a_dtype = ''int16'', writeable = True, body = Arr [Scalar 1]\<rparr>),
                (1, \<lparr>a_dtype = ''int16'', writeable = True, body = Arr [Scalar 2]\<rparr>)])
          DimsNone None None
     = Inr \<lparr>rdd = Inr [(0, \<lparr>a_dtype = ''int16'', writeable = True, body = Arr [Scalar 1]\<rparr>),
                        (1, \<lparr>a_dtype = ''int16'', writeable = True, body = Arr [Scalar 2]\<rparr>)],
            u_dims = None, u_nimages = None, u_dtype = None, jobs = []\<rparr>
   \<and> nimages \<lparr>rdd = Inr [(0, \<lparr>a_dtype = ''int16'', writeable = True, body = Arr [Scalar 1]\<rparr>),
                         (1, \<lparr>a_dtype = ''int16'', writeable = True, body = Arr [Scalar 2]\<rparr>)],
               u_dims = None, u_nimages = None, u_dtype = None, jobs = []\<rparr>
     = Inr (2, \<lparr>rdd = Inr [(0, \<lparr>a_dtype = ''int16'', writeable = True, body = Arr [Scalar 1]\<rparr>),
                            (1, \<lparr>a_dtype = ''int16'', writeable = True, body = Arr [Scalar 2]\<rparr>)],
                u_dims = None, u_nimages = Some 2, u_dtype = None, jobs = [Count]\<rparr>)
   \<and> Images (Inr []) DimsNone (Some 7) None
     = Inr \<lparr>rdd = Inr [], u_dims = None, u_nimages = Some 7, u_dtype = None, jobs = []\<rparr>
   \<and> nimages \<lparr>rdd = Inr [], u_dims = None, u_nimages = Some 7, u_dtype = None, jobs = []\<rparr>
     = Inr (7, \<lparr>rdd = Inr [], u_dims = None, u_nimages = Some 7, u_dtype = None, jobs = []\<rparr>)"
  using nimages_lazy_cached_reset
    [of "[(0, \<lparr>a_dtype = ''int16'', writeable = True, body = Arr [Scalar 1]\<rparr>),
          (1, \<lparr>a_dtype = ''int16'', writeable = True, body = Arr [Scalar 2]\<rparr>)]"
        DimsNone None
        "\<lparr>rdd = Inr [(0, \<lparr>a_dtype = ''int16'', writeable = True, body = Arr [Scalar 1]\<rparr>),
                     (1, \<lparr>a_dtype = ''int16'', writeable = True, body = Arr [Scalar 2]\<rparr>)],
          u_dims = None, u_nimages = None, u_dtype = None, jobs = []\<rparr>"
        "Inr []" 7
        "\<lparr>rdd = Inr [], u_dims = None, u_nimages = Some 7, u_dtype = None, jobs = []\<rparr>"]
  by (simp add: Images_def Let_def)

section \<open>The cached shape after subsampling\<close>

text \<open>
  Claim C7 at the collection \<open>exLine\<close>, one image of shape (5,), subsampled by 2: the
  slice \<open>0:5:2\<close> of each record has the 3 elements at 0, 2 and 4, while the cached \<open>dims\<close>
  of the returned collection is \<open>5 / 2 = 2\<close>. In general the slice of an axis of size \<open>s\<close>
  with step \<open>f\<close> has \<open>(s + f - 1) div f\<close> elements (\<open>sliceIndices_length\<close>), which exceeds
  \<open>s div f\<close> whenever \<open>f\<close> does not divide \<open>s\<close> (\<open>floor_less_ceiling\<close>).
\<close>

theorem subsample_cached_dims_differ:
  "map_sum id (\<lambda>r. (u_dims (fst r), map_sum id (map (\<lambda>kv. shape (body (snd kv)))) (rdd (fst r))))
     (subsample exLine (SfInt 2))
   = Inr (Some [2], Inr [[3]])"
  by code_simp

section \<open>The filters leave the records of the source as they are\<close>



section \<open>The axis of a projection\<close>

text \<open>
  Claim C9, as amended. For a collection of rank \<open>r\<close>, \<open>maxProjection(axis)\<close> raises in
  the call whenever \<open>axis >= r\<close>, by its explicit test. \<open>maxminProjection(axis)\<close> has no
  such test, but it rejects an axis \<open>>= r\<close> in the call all the same: \<open>del newdims[axis]\<close>
  raises an IndexError, and the lazily mapped per-record function has not run. When
  either operation succeeds, the axis lies in \<open>[-r, r)\<close> and the \<open>dims\<close> of the returned
  collection is the \<open>dims\<close> of the receiver with that axis removed.
\<close>

theorem projection_axis_range:
  "(dims self = Inr (d, s1) \<and> int (length d) \<le> axis \<longrightarrow>
       maxProjection self axis = Inl PyException
     \<and> maxminProjection self axis = Inl IndexError)
   \<and> (maxProjection self axis = Inr (res, self') \<longrightarrow>
        (\<exists>d. dims self = Inr (d, self')
           \<and> - int (length d) \<le> axis \<and> axis < int (length d)
           \<and> dims res = Inr (take (nat (if axis < 0 then axis + int (length d) else axis)) d
                           @ drop (Suc (nat (if axis < 0 then axis + int (length d) else axis))) d,
                         res)))
   \<and> (maxminProjection self axis = Inr (res', self'') \<longrightarrow>
        (\<exists>d. dims self = Inr (d, self'')
           \<and> - int (length d) \<le> axis \<and> axis < int (length d)
           \<and> dims res' = Inr (take (nat (if axis < 0 then axis + int (length d) else axis)) d
                           @ drop (Suc (nat (if axis < 0 then axis + int (length d) else axis))) d,
                         res')))"
proof (intro conjI impI)
  assume a: "dims self = Inr (d, s1) \<and> int (length d) \<le> axis"
  then show "maxProjection self axis = Inl PyException"
    by (simp add: maxProjection_def)
  from a show "maxminProjection self axis = Inl IndexError"
    by (simp add: maxminProjection_def Let_def delAt_out_of_range)
next
  assume a: "maxProjection self axis = Inr (res, self')"
  then obtain d0 s0 where d0: "dims self = Inr (d0, s0)"
    by (auto simp: maxProjection_def bindE_eq_Inr)
  note i = dims_idem[OF d0]
  from a d0 i have r: "bindE (delAt axis d0) (\<lambda>newdims.
              bindE (Images (mapValues (\<lambda>x. amax x axis) (rdd s0)) (DimsSeq newdims) None None)
                (\<lambda>new. Inr (finalize new s0, s0))) = Inr (res, self')"
    by (simp add: maxProjection_def Let_def split: if_splits)
  from projection_result[OF i r] d0
  show "\<exists>d. dims self = Inr (d, self')
           \<and> - int (length d) \<le> axis \<and> axis < int (length d)
           \<and> dims res = Inr (take (nat (if axis < 0 then axis + int (length d) else axis)) d
                           @ drop (Suc (nat (if axis < 0 then axis + int (length d) else axis))) d,
                         res)"
    by (intro exI[of _ d0]) simp
next
  assume a: "maxminProjection self axis = Inr (res', self'')"
  then obtain d0 s0 where d0: "dims self = Inr (d0, s0)"
    by (auto simp: maxminProjection_def Let_def bindE_eq_Inr)
  from a d0 have r: "bindE (delAt axis d0) (\<lambda>newdims.
              bindE (Images (mapValues (\<lambda>x. bindE (amax x axis) (\<lambda>a. bindE (amin x axis) (\<lambda>b. add a b)))
                   (rdd self)) (DimsSeq newdims) None None)
                (\<lambda>new. Inr (finalize new s0, s0))) = Inr (res', self'')"
    by (simp add: maxminProjection_def Let_def)
  from projection_result[OF dims_idem[OF d0] r] d0
  show "\<exists>d. dims self = Inr (d, self'')
           \<and> - int (length d) \<le> axis \<and> axis < int (length d)
           \<and> dims res' = Inr (take (nat (if axis < 0 then axis + int (length d) else axis)) d
                           @ drop (Suc (nat (if axis < 0 then axis + int (length d) else axis))) d,
                         res')"
    by (intro exI[of _ d0]) simp
qed

text \<open>On an image of shape (2, 3), \<open>maxminProjection(2)\<close> raises in the call.\<close>

theorem maxminProjection_rejects_axis:
  "maxminProjection exPlane 2 = Inl IndexError"
  by code_simp

theorem projection_axis_range_witness:
  "dims exPlane = Inr ([2, 3], exPlaneProbed)
   \<and> maxProjection exPlane 2 = Inl PyException
   \<and> maxminProjection exPlane 2 = Inl IndexError
   \<and> maxProjection exPlane 1 = Inr (exPlaneMax, exPlaneProbed)
   \<and> dims exPlaneMax = Inr ([2], exPlaneMax)"
proof -
  have d: "dims exPlane = Inr ([2, 3], exPlaneProbed)" by code_simp
  have e: "maxProjection exPlane 1 = Inr (exPlaneMax, exPlaneProbed)" by code_simp
  from projection_axis_range
         [where self = exPlane and d = "[2, 3]" and ?s1.0 = exPlaneProbed and axis = 2] d
  have 1: "maxProjection exPlane 2 = Inl PyException \<and> maxminProjection exPlane 2 = Inl IndexError"
    by simp
  from projection_axis_range
         [where self = exPlane and axis = 1 and res = exPlaneMax and self' = exPlaneProbed] e
  have 2: "dims exPlaneMax = Inr ([2], exPlaneMax)"
    by (simp add: d)
  from d e 1 2 show ?thesis by simp
qed

section \<open>Conversion to Series\<close>

text \<open>
  Claim C10, as amended. \<open>toSeries(blockSizeSpec)\<close> is \<open>toBlocks(blockSizeSpec)\<close> with
  the padding at its default 0, followed by \<open>toSeries()\<close> of the Blocks collection. It
  has no padding argument, so a string, an integer or a tuple of splits always yields
  the unpadded class; a strategy instance passed as \<open>blockSizeSpec\<close> is used as it is,
  also when it is a padded one.
\<close>

theorem toSeries_is_toBlocks_then_toSeries:
  "toSeries M self spec =
     bindE (toBlocks M self spec (PyInt 0)) (\<lambda>(blk, self1, out).
     bindE (Blocks_toSeries M blk) (\<lambda>ser. Inr (ser, self1, out)))
   \<and> selectStrategy M self (SpecValue v) (PyInt 0) =
       (if isStringOrInt v then
          bindE (probe self) (\<lambda>(m, self1).
          bindE (generateFromBlockSize M SimpleBlockingStrategy m v (PyInt 0)) (\<lambda>s.
          Inr (s, self1)))
        else bindE (newStrategy M SimpleBlockingStrategy v (PyInt 0)) (\<lambda>s. Inr (s, self)))
   \<and> selectStrategy M self (SpecStrategy s) (PyInt 0) = Inr (s, self)"
  by (simp add: toSeries_def selectStrategy_def stratClassFor_def)

text \<open>A padded strategy instance handed to \<open>toSeries\<close> is the strategy that builds the blocks.\<close>

theorem toSeries_padded_instance:
  "map_sum id fst
     (toSeries exModule exImages (SpecStrategy (PaddedBlockingStrategy, [2, 2], None)))
   = Inr (''PaddedBlocks'',
          Inr [([0, 0], [Arr [Arr [Scalar 10]], Arr [Arr [Scalar 20]]]),
               ([1, 0], [Arr [Arr [Scalar 12]], Arr [Arr [Scalar 22]]]),
               ([0, 1], [Arr [Arr [Scalar 11]], Arr [Arr [Scalar 21]]]),
               ([1, 1], [Arr [Arr [Scalar 13]], Arr [Arr [Scalar 23]]])])"
  by code_simp

end
